theory Spec2Isabelle
  imports Complex_Main
begin

section \<open>The meteo module of MeteoInfoLab\<close>

text \<open>
  A shallow embedding of \<^verbatim>\<open>pylib/mipylib/meteolib/meteo.py\<close>. Numbers are real
  numbers: the rounding and the overflow of the machine's double-precision arithmetic
  are not part of the model, its exceptions are. Every function that can raise returns
  \<open>error + 'a\<close>.
\<close>

subsection \<open>Exceptions\<close>

datatype error =
    ZeroDivisionError   \<comment> \<open>float division by zero, and zero to a negative power\<close>
  | ValueError          \<comment> \<open>math domain error: logarithm of a non-positive number,
                            a negative number to a fractional power\<close>
  | ShapeError          \<comment> \<open>operands of an array operation do not fit together\<close>
  | IndexError          \<comment> \<open>an index outside an array\<close>
  | LinAlgError         \<comment> \<open>the linear-algebra collaborator gave up\<close>

definition and_then :: "error + 'a \<Rightarrow> ('a \<Rightarrow> error + 'b) \<Rightarrow> error + 'b" where
  "and_then m f = (case m of Inl e \<Rightarrow> Inl e | Inr v \<Rightarrow> f v)"

subsection \<open>Scalar arithmetic that can raise\<close>

text \<open>\<^verbatim>\<open>a / b\<close> on floats.\<close>

definition py_div :: "real \<Rightarrow> real \<Rightarrow> error + real" where
  "py_div a b = (if b = 0 then Inl ZeroDivisionError else Inr (a / b))"

text \<open>\<^verbatim>\<open>a ** b\<close> on floats.\<close>

definition py_pow :: "real \<Rightarrow> real \<Rightarrow> error + real" where
  "py_pow a b =
     (if 0 < a then Inr (a powr b)
      else if a = 0 then
        (if b = 0 then Inr 1 else if 0 < b then Inr 0 else Inl ZeroDivisionError)
      else if b = of_int \<lfloor>b\<rfloor> then Inr (power_int a \<lfloor>b\<rfloor>)
      else Inl ValueError)"

text \<open>\<^verbatim>\<open>np.log(x)\<close> on a scalar is \<^verbatim>\<open>math.log(x)\<close>.\<close>

definition py_log :: "real \<Rightarrow> error + real" where
  "py_log x = (if x \<le> 0 then Inl ValueError else Inr (ln x))"

subsection \<open>Constants\<close>

definition P0 :: real where "P0 = 1000"
definition R :: real where "R = 8.3144598"
definition Mw :: real where "Mw = 18.01528"
definition Md :: real where "Md = 28.9644"
definition Rd :: real where "Rd = R / Md"
definition epsilon :: real where "epsilon = Mw / Md"
definition kappa :: real where "kappa = 0.286"
definition g :: real where "g = 9.8"
definition sat_pressure_0c :: real where "sat_pressure_0c = 6.112"

subsection \<open>The scalar formulas\<close>

definition pressure_to_height_std :: "real \<Rightarrow> error + real" where
  "pressure_to_height_std press =
     (let t0 = 288; gamma = 6.5; p0 = 1013.25 in
      and_then (py_pow (press / p0) (Rd * gamma / g))
        (\<lambda>w. Inr ((t0 / gamma) * (1 - w) * 1000)))"

definition height_to_pressure_std :: "real \<Rightarrow> error + real" where
  "height_to_pressure_std height =
     (let t0 = 288; gamma = 6.5; p0 = 1013.25;
          height = height * 0.001 in
      and_then (py_pow (1 - (gamma / t0) * height) (g / (Rd * gamma)))
        (\<lambda>w. Inr (p0 * w)))"

definition dewpoint :: "real \<Rightarrow> error + real" where
  "dewpoint e =
     and_then (py_log (e / sat_pressure_0c))
       (\<lambda>val. py_div (243.5 * val) (17.67 - val))"

definition saturation_vapor_pressure :: "real \<Rightarrow> error + real" where
  "saturation_vapor_pressure temperature =
     and_then (py_div (17.67 * (temperature - 273.15)) (temperature - 29.65))
       (\<lambda>q. Inr (sat_pressure_0c * exp q))"


definition potential_temperature :: "real \<Rightarrow> real \<Rightarrow> error + real" where
  "potential_temperature pressure temperature =
     and_then (py_div P0 pressure)
       (\<lambda>q. and_then (py_pow q kappa) (\<lambda>w. Inr (temperature * w)))"

definition mixing_ratio :: "real \<Rightarrow> real \<Rightarrow> error + real" where
  "mixing_ratio part_press tot_press =
     py_div (epsilon * part_press) (tot_press - part_press)"

definition saturation_mixing_ratio :: "real \<Rightarrow> real \<Rightarrow> error + real" where
  "saturation_mixing_ratio tot_press temperature =
     and_then (saturation_vapor_pressure temperature) (\<lambda>es. mixing_ratio es tot_press)"

definition vapor_pressure :: "real \<Rightarrow> real \<Rightarrow> error + real" where
  "vapor_pressure pressure mixing = py_div (pressure * mixing) (epsilon + mixing)"

subsection \<open>Arrays\<close>

text \<open>
  The array library (\<^verbatim>\<open>mipylib.numeric\<close>) is not part of the sources of this module.
  Its operations are embedded with the meaning of the NumPy operations of the same names,
  which the module is written against; operands whose shapes do not fit raise, and
  NumPy's stretching of a single row or column to fit is not modelled. A one-dimensional
  array is a list; a two-dimensional array carries its shape and its rows.
\<close>

record 'a array2 =
  nrows :: nat
  ncols :: nat
  rows :: "'a list list"

definition well_shaped :: "'a array2 \<Rightarrow> bool" where
  "well_shaped a =
     (length (rows a) = nrows a \<and> list_all (\<lambda>r. length r = ncols a) (rows a))"

definition item :: "'a array2 \<Rightarrow> nat \<Rightarrow> nat \<Rightarrow> 'a" where
  "item a i j = rows a ! i ! j"

definition column :: "'a array2 \<Rightarrow> nat \<Rightarrow> 'a list" where
  "column a j = map (\<lambda>r. r ! j) (rows a)"

definition full :: "nat \<Rightarrow> nat \<Rightarrow> 'a \<Rightarrow> 'a array2" where
  "full m n v = \<lparr>nrows = m, ncols = n, rows = replicate m (replicate n v)\<rparr>"

definition zeros :: "nat \<Rightarrow> nat \<Rightarrow> 'a::zero array2" where
  "zeros m n = full m n 0"

definition ones :: "nat \<Rightarrow> nat \<Rightarrow> 'a::one array2" where
  "ones m n = full m n 1"

definition eye :: "nat \<Rightarrow> 'a::{zero,one} array2" where
  "eye n = \<lparr>nrows = n, ncols = n,
            rows = map (\<lambda>i. map (\<lambda>j. if i = j then 1 else 0) [0..<n]) [0..<n]\<rparr>"

text \<open>\<^verbatim>\<open>np.diag(v)\<close> of a one-dimensional \<open>v\<close>.\<close>

definition diag :: "'a::zero list \<Rightarrow> 'a array2" where
  "diag v = \<lparr>nrows = length v, ncols = length v,
             rows = map (\<lambda>i. map (\<lambda>j. if i = j then v ! i else 0) [0..<length v])
                      [0..<length v]\<rparr>"

text \<open>\<^verbatim>\<open>a.T\<close>.\<close>

definition transpose2 :: "'a array2 \<Rightarrow> 'a array2" where
  "transpose2 a = \<lparr>nrows = ncols a, ncols = nrows a,
                   rows = map (column a) [0..<ncols a]\<rparr>"

text \<open>An operation applied to every element: \<^verbatim>\<open>-a\<close>, \<^verbatim>\<open>a ** 3\<close>, \<^verbatim>\<open>a / n\<close>.\<close>

definition elementwise :: "('a \<Rightarrow> 'b) \<Rightarrow> 'a array2 \<Rightarrow> 'b array2" where
  "elementwise f a = \<lparr>nrows = nrows a, ncols = ncols a, rows = map (map f) (rows a)\<rparr>"

text \<open>\<^verbatim>\<open>a - b\<close> on arrays of one shape.\<close>

definition subtract :: "'a::minus array2 \<Rightarrow> 'a array2 \<Rightarrow> error + 'a array2" where
  "subtract a b =
     (if nrows a = nrows b \<and> ncols a = ncols b
      then Inr \<lparr>nrows = nrows a, ncols = ncols a,
                 rows = map2 (map2 (\<lambda>u v. u - v)) (rows a) (rows b)\<rparr>
      else Inl ShapeError)"

definition inner :: "'a::{zero,plus,times} list \<Rightarrow> 'a list \<Rightarrow> 'a" where
  "inner u v = foldr (\<lambda>w acc. w + acc) (map2 (\<lambda>a b. a * b) u v) 0"

text \<open>\<^verbatim>\<open>np.dot(a, b)\<close> on two-dimensional arrays.\<close>

definition dot :: "'a::{zero,plus,times} array2 \<Rightarrow> 'a array2 \<Rightarrow> error + 'a array2" where
  "dot a b =
     (if ncols a = nrows b
      then Inr \<lparr>nrows = nrows a, ncols = ncols b,
                 rows = map (\<lambda>r. map (\<lambda>j. inner r (column b j)) [0..<ncols b]) (rows a)\<rparr>
      else Inl ShapeError)"

text \<open>\<^verbatim>\<open>np.squeeze\<close> of an array of one row: the row.\<close>

definition squeeze :: "'a array2 \<Rightarrow> error + 'a list" where
  "squeeze a = (case rows a of [r] \<Rightarrow> Inr r | _ \<Rightarrow> Inl ShapeError)"

text \<open>\<^verbatim>\<open>a[:, ::-1]\<close> and \<^verbatim>\<open>a[::-1, :]\<close>.\<close>

definition reverse_columns :: "'a array2 \<Rightarrow> 'a array2" where
  "reverse_columns a = a\<lparr>rows := map rev (rows a)\<rparr>"

definition reverse_rows :: "'a array2 \<Rightarrow> 'a array2" where
  "reverse_rows a = a\<lparr>rows := rev (rows a)\<rparr>"

text \<open>\<^verbatim>\<open>a[idx, :]\<close> for a list of row indices.\<close>

definition take_rows :: "'a array2 \<Rightarrow> nat list \<Rightarrow> error + 'a array2" where
  "take_rows a idx =
     (if list_all (\<lambda>i. i < nrows a) idx
      then Inr \<lparr>nrows = length idx, ncols = ncols a, rows = map (\<lambda>i. rows a ! i) idx\<rparr>
      else Inl IndexError)"

text \<open>
  \<^verbatim>\<open>a[idx, :] = v\<close>: the value must have the shape of the selection, one row for each
  index and the columns of \<open>a\<close>.
\<close>

definition set_rows :: "'a array2 \<Rightarrow> nat list \<Rightarrow> 'a array2 \<Rightarrow> error + 'a array2" where
  "set_rows a idx v =
     (if \<not> list_all (\<lambda>i. i < nrows a) idx then Inl IndexError
      else if nrows v = length idx \<and> ncols v = ncols a
      then Inr (a\<lparr>rows := fold (\<lambda>(k, i) rs. rs[i := rows v ! k])
                               (zip [0..<length idx] idx) (rows a)\<rparr>)
      else Inl ShapeError)"

text \<open>\<^verbatim>\<open>a[i, j] = v\<close> and \<^verbatim>\<open>a[:, j] = c\<close>.\<close>

definition set_item :: "'a array2 \<Rightarrow> nat \<Rightarrow> nat \<Rightarrow> 'a \<Rightarrow> error + 'a array2" where
  "set_item a i j v =
     (if i < nrows a \<and> j < ncols a
      then Inr (a\<lparr>rows := (rows a)[i := (rows a ! i)[j := v]]\<rparr>)
      else Inl IndexError)"

definition set_column :: "'a array2 \<Rightarrow> nat \<Rightarrow> 'a list \<Rightarrow> error + 'a array2" where
  "set_column a j c =
     (if \<not> j < ncols a then Inl IndexError
      else if length c = nrows a
      then Inr (a\<lparr>rows := map2 (\<lambda>r v. r[j := v]) (rows a) c\<rparr>)
      else Inl ShapeError)"

subsection \<open>Varimax rotation\<close>

text \<open>
  The singular value decomposition \<^verbatim>\<open>np.linalg.svd\<close> is a collaborator and a parameter
  of the model: it returns \<open>(U, S, Vh)\<close> or raises.
\<close>

type_synonym 'a svd = "'a array2 \<Rightarrow> error + ('a array2 \<times> 'a list \<times> 'a array2)"

text \<open>
  The body of the loop up to the new \<open>TT\<close> and the new \<open>d\<close>:
  \<^verbatim>\<open>z = np.dot(x, TT)\<close>,
  \<^verbatim>\<open>B = np.dot(x.T, (z**3 - np.dot(z, np.diag(np.squeeze(np.dot(np.ones((1,p)), (z**2))))) / p))\<close>,
  \<^verbatim>\<open>U, S, Vh = np.linalg.svd(B)\<close>, \<^verbatim>\<open>TT = np.dot(U, Vh)\<close>, \<^verbatim>\<open>d = np.sum(S)\<close>.
\<close>

definition varimax_B :: "real array2 \<Rightarrow> real array2 \<Rightarrow> error + real array2" where
  "varimax_B x TT =
     (let p = nrows x in
      and_then (dot x TT) (\<lambda>z.
      and_then (dot (ones 1 p) (elementwise (\<lambda>v. v ^ 2) z)) (\<lambda>s.
      and_then (squeeze s) (\<lambda>sq.
      and_then (dot z (diag sq)) (\<lambda>zd.
      and_then (subtract (elementwise (\<lambda>v. v ^ 3) z)
                         (elementwise (\<lambda>v. v / real p) zd)) (\<lambda>w.
      dot (transpose2 x) w))))))"

definition varimax_body :: "real svd \<Rightarrow> real array2 \<Rightarrow> real array2 \<Rightarrow> error + (real array2 \<times> real)" where
  "varimax_body linalg_svd x TT =
     and_then (varimax_B x TT) (\<lambda>B.
     and_then (linalg_svd B) (\<lambda>(U, S, Vh).
     and_then (dot U Vh) (\<lambda>TT'. Inr (TT', sum_list S))))"

text \<open>The test that leaves the loop: \<^verbatim>\<open>d < d2 * (1 + tol)\<close>.\<close>

definition exceeded :: "real \<Rightarrow> real \<Rightarrow> real \<Rightarrow> bool" where
  "exceeded d d2 tol = (d < d2 * (1 + tol))"

text \<open>
  \<^verbatim>\<open>for i in range(it_max)\<close>, with the number of iterations still to run as the
  recursion argument; the result is \<open>TT\<close> and \<open>d\<close> when the loop is left.
\<close>

fun varimax_loop ::
  "real svd \<Rightarrow> real array2 \<Rightarrow> real \<Rightarrow> nat \<Rightarrow> real array2 \<Rightarrow> real \<Rightarrow> error + (real array2 \<times> real)"
where
  "varimax_loop linalg_svd x tol 0 TT d = Inr (TT, d)"
| "varimax_loop linalg_svd x tol (Suc n) TT d =
     and_then (varimax_body linalg_svd x TT) (\<lambda>(TT', d').
       if exceeded d' d tol then Inr (TT', d')
       else varimax_loop linalg_svd x tol n TT' d')"

definition varimax ::
  "real svd \<Rightarrow> real array2 \<Rightarrow> bool \<Rightarrow> real \<Rightarrow> int \<Rightarrow> error + (real array2 \<times> real array2)"
where
  "varimax linalg_svd x normalize' tol it_max =
     (let nc = ncols x in
      and_then (varimax_loop linalg_svd x tol (nat it_max) (eye nc) 0) (\<lambda>(TT, d).
      and_then (dot x TT) (\<lambda>r. Inr (r, TT))))"


definition shaped :: "nat \<Rightarrow> nat \<Rightarrow> 'a array2 \<Rightarrow> bool" where
  "shaped m n a = (well_shaped a \<and> nrows a = m \<and> ncols a = n)"





subsection \<open>Empirical orthogonal functions\<close>

text \<open>
  The elements of the input of \<open>eof\<close> are numbers or the missing marker \<^verbatim>\<open>np.nan\<close>.
  Arithmetic with the marker gives the marker. Infinities are not modelled: a division by
  zero gives the marker as well.
\<close>

datatype val = Num real | NaN

instantiation val :: "{zero,one,plus,uminus,times,inverse,abs}"
begin

definition zero_val :: val where "zero_val = Num 0"

definition one_val :: val where "one_val = Num 1"

definition plus_val :: "val \<Rightarrow> val \<Rightarrow> val" where
  "plus_val u v = (case (u, v) of (Num a, Num b) \<Rightarrow> Num (a + b) | _ \<Rightarrow> NaN)"

definition uminus_val :: "val \<Rightarrow> val" where
  "uminus_val u = (case u of Num a \<Rightarrow> Num (- a) | NaN \<Rightarrow> NaN)"

definition times_val :: "val \<Rightarrow> val \<Rightarrow> val" where
  "times_val u v = (case (u, v) of (Num a, Num b) \<Rightarrow> Num (a * b) | _ \<Rightarrow> NaN)"

definition divide_val :: "val \<Rightarrow> val \<Rightarrow> val" where
  "divide_val u v =
     (case (u, v) of (Num a, Num b) \<Rightarrow> (if b = 0 then NaN else Num (a / b)) | _ \<Rightarrow> NaN)"

definition inverse_val :: "val \<Rightarrow> val" where
  "inverse_val u = (case u of Num a \<Rightarrow> (if a = 0 then NaN else Num (1 / a)) | NaN \<Rightarrow> NaN)"

definition abs_val :: "val \<Rightarrow> val" where
  "abs_val u = (case u of Num a \<Rightarrow> Num \<bar>a\<bar> | NaN \<Rightarrow> NaN)"

instance ..

end

text \<open>\<^verbatim>\<open>np.sqrt\<close>; the module applies it to absolute values only.\<close>

definition sqrt_val :: "val \<Rightarrow> val" where
  "sqrt_val u = (case u of Num a \<Rightarrow> (if a < 0 then NaN else Num (sqrt a)) | NaN \<Rightarrow> NaN)"

text \<open>The eigendecomposition \<^verbatim>\<open>np.linalg.eig\<close>, a collaborator like the SVD.\<close>

type_synonym 'a eig = "'a array2 \<Rightarrow> error + ('a list \<times> 'a array2)"

text \<open>\<^verbatim>\<open>x.contains_nan()\<close>.\<close>

definition contains_nan :: "val array2 \<Rightarrow> bool" where
  "contains_nan x = list_ex (list_ex (\<lambda>v. v = NaN)) (rows x)"

text \<open>
  \<^verbatim>\<open>np.where(x[:,0]!=np.nan)[0]\<close>. The comparison is the array library's; it is taken
  as the specification has it, the test for the missing marker: the indices of the rows
  without the marker in column 0.
\<close>

definition valid_rows :: "val array2 \<Rightarrow> error + nat list" where
  "valid_rows x =
     (if ncols x = 0 then Inl IndexError
      else Inr (filter (\<lambda>i. item x i 0 \<noteq> NaN) [0..<nrows x]))"

text \<open>\<^verbatim>\<open>for i in range(len(S)): C[i,i] = S[i]\<close>.\<close>

fun fill_diagonal :: "nat list \<Rightarrow> 'a list \<Rightarrow> 'a array2 \<Rightarrow> error + 'a array2" where
  "fill_diagonal [] S C = Inr C"
| "fill_diagonal (i # is) S C = and_then (set_item C i i (S ! i)) (fill_diagonal is S)"

text \<open>\<^verbatim>\<open>for i in range(n): EOF[:,i] = EOFa[:,i]/np.sqrt(abs(E[i]))\<close>.\<close>

fun scale_columns :: "nat list \<Rightarrow> val array2 \<Rightarrow> val list \<Rightarrow> val array2 \<Rightarrow> error + val array2" where
  "scale_columns [] EOFa E EOF = Inr EOF"
| "scale_columns (i # is) EOFa E EOF =
     (if \<not> i < ncols EOFa \<or> \<not> i < length E then Inl IndexError
      else and_then (set_column EOF i (map (\<lambda>v. v / sqrt_val \<bar>E ! i\<bar>) (column EOFa i)))
             (scale_columns is EOFa E))"

text \<open>The three pathways, from \<^verbatim>\<open>m, n = xx.shape\<close> to the values of \<open>EOF\<close>, \<open>E\<close>, \<open>PC\<close>.\<close>

definition eof_decompose ::
  "val svd \<Rightarrow> val eig \<Rightarrow> val array2 \<Rightarrow> bool \<Rightarrow> bool \<Rightarrow> error + (val array2 \<times> val list \<times> val array2)"
where
  "eof_decompose linalg_svd linalg_eig xx svd transform =
     (let m = nrows xx; n = ncols xx in
      if svd then
        and_then (linalg_svd xx) (\<lambda>(U, S, V).
        and_then (fill_diagonal [0..<length S] S (zeros m n)) (\<lambda>C.
        and_then (dot C V) (\<lambda>PC.
        Inr (U, map (\<lambda>s. s * s / Num (real n)) S, PC))))
      else if transform then
        and_then (dot (transpose2 xx) xx) (\<lambda>C.
        and_then (linalg_eig C) (\<lambda>(E1, EOF1).
        and_then (dot xx (reverse_columns EOF1)) (\<lambda>EOFa.
        and_then (scale_columns [0..<n] EOFa (rev E1) (zeros m n)) (\<lambda>EOF.
        and_then (dot (transpose2 EOF) xx) (\<lambda>PC.
        Inr (EOF, rev E1, PC))))))
      else
        and_then (dot xx (transpose2 xx)) (\<lambda>C.
        and_then (linalg_eig (elementwise (\<lambda>v. v / Num (real n)) C)) (\<lambda>(E, EOF).
        and_then (dot (transpose2 EOF) xx) (\<lambda>PC.
        Inr (reverse_columns EOF, rev E, reverse_rows PC)))))"

definition eof ::
  "val svd \<Rightarrow> val eig \<Rightarrow> val array2 \<Rightarrow> bool \<Rightarrow> bool \<Rightarrow> error + (val array2 \<times> val list \<times> val array2)"
where
  "eof linalg_svd linalg_eig x svd transform =
     (if contains_nan x then
        and_then (valid_rows x) (\<lambda>valid_idx.
        and_then (take_rows x valid_idx) (\<lambda>xx.
        and_then (eof_decompose linalg_svd linalg_eig xx svd transform) (\<lambda>(EOF, E, PC).
        and_then (set_rows (elementwise (\<lambda>v. v * NaN) (ones (nrows x) (ncols x)))
                    valid_idx (elementwise uminus EOF)) (\<lambda>EOF'.
        and_then (set_rows (elementwise (\<lambda>v. v * NaN) (ones (nrows x) (ncols x)))
                    valid_idx (elementwise uminus PC)) (\<lambda>PC'.
        Inr (EOF', E, PC'))))))
      else eof_decompose linalg_svd linalg_eig x svd transform)"

subsection \<open>Collaborators for the examples\<close>

text \<open>
  A singular value decomposition and an eigendecomposition that are right on a diagonal
  array (with non-negative entries in descending order for the first, in ascending
  order for the second): there \<open>B = I \<cdot> diag(S) \<cdot> I\<close>, and the unit vectors are the
  eigenvectors.
\<close>

definition svd_of_diagonal :: "'a::{zero,one} svd" where
  "svd_of_diagonal B =
     Inr (eye (nrows B), map (\<lambda>i. item B i i) [0..<nrows B], eye (nrows B))"

definition eig_of_diagonal :: "'a::{zero,one} eig" where
  "eig_of_diagonal C = Inr (map (\<lambda>i. item C i i) [0..<nrows C], eye (nrows C))"

section \<open>Properties of the scalar formulas\<close>

lemma and_then_Inr [simp]: "and_then (Inr v) f = f v"
  by (simp add: and_then_def)

lemma and_then_Inl [simp]: "and_then (Inl e) f = Inl e"
  by (simp add: and_then_def)

lemma epsilon_pos: "0 < epsilon"
  by (simp add: epsilon_def Mw_def Md_def)

lemma Rd_pos: "0 < Rd"
  by (simp add: Rd_def R_def Md_def)

lemma saturation_vapor_pressure_value:
  assumes "T \<noteq> 29.65"
  shows "saturation_vapor_pressure T =
           Inr (sat_pressure_0c * exp (17.67 * (T - 273.15) / (T - 29.65)))"
  using assms by (simp add: saturation_vapor_pressure_def py_div_def)

lemma dewpoint_of_exp:
  assumes "q \<noteq> 17.67"
  shows "dewpoint (sat_pressure_0c * exp q) = Inr (243.5 * q / (17.67 - q))"
  using assms by (simp add: dewpoint_def py_log_def py_div_def sat_pressure_0c_def)

lemma bolton_gap:
  fixes T :: real
  assumes "T \<noteq> 29.65"
  shows "17.67 - 17.67 * (T - 273.15) / (T - 29.65) = 17.67 * 243.5 / (T - 29.65)"
  using assms by (simp add: field_simps)

lemma bolton_ne:
  fixes T :: real
  assumes "T \<noteq> 29.65"
  shows "17.67 * (T - 273.15) / (T - 29.65) \<noteq> 17.67"
proof -
  have d: "T - 29.65 \<noteq> 0" using assms by simp
  have "17.67 * (T - 273.15) \<noteq> 17.67 * (T - 29.65)" by simp
  then show ?thesis using d by (simp add: divide_eq_eq)
qed

text \<open>
  C9. For every temperature \<open>T\<close> in Kelvin other than 29.65, the dewpoint of the
  saturation vapour pressure at \<open>T\<close> is \<open>T - 273.15\<close>: inverting Bolton's formula
  gives the temperature back, in degrees Celsius.
\<close>

theorem dewpoint_saturation_vapor_pressure:
  assumes "T \<noteq> 29.65"
  shows "and_then (saturation_vapor_pressure T) dewpoint = Inr (T - 273.15)"
proof -
  let ?q = "17.67 * (T - 273.15) / (T - 29.65)"
  have gap: "17.67 - ?q = 17.67 * 243.5 / (T - 29.65)"
    using assms by (rule bolton_gap)
  have ne: "?q \<noteq> 17.67"
    using assms by (rule bolton_ne)
  have "243.5 * ?q / (17.67 - ?q) = T - 273.15"
    unfolding gap using assms by (simp add: field_simps)
  then show ?thesis
    using assms ne
    by (simp add: saturation_vapor_pressure_value dewpoint_of_exp)
qed

theorem dewpoint_saturation_vapor_pressure_witness:
  "(300::real) \<noteq> 29.65 \<and>
   and_then (saturation_vapor_pressure 300) dewpoint = Inr (300 - 273.15)"
  using dewpoint_saturation_vapor_pressure [of 300] by simp

text \<open>
  C10. For a partial pressure \<open>e\<close> and a total pressure \<open>p\<close> with \<open>p \<noteq> e\<close>, the
  mixing ratio \<open>r\<close> of \<open>e\<close> in \<open>p\<close> is defined, and whenever \<open>epsilon + r \<noteq> 0\<close> the
  vapour pressure of \<open>r\<close> at \<open>p\<close> is \<open>e\<close> again.
\<close>

theorem vapor_pressure_mixing_ratio:
  assumes "p \<noteq> e"
  shows "\<exists>r. mixing_ratio e p = Inr r \<and>
             (epsilon + r \<noteq> 0 \<longrightarrow> vapor_pressure p r = Inr e)"
proof -
  let ?r = "epsilon * e / (p - e)"
  have r: "mixing_ratio e p = Inr ?r"
    using assms by (simp add: mixing_ratio_def py_div_def)
  have sum: "epsilon + ?r = epsilon * p / (p - e)"
    using assms by (simp add: field_simps)
  have "vapor_pressure p ?r = Inr e" if nz: "epsilon + ?r \<noteq> 0"
  proof -
    have "p \<noteq> 0" using nz sum by auto
    then have "p * ?r / (epsilon + ?r) = e"
      unfolding sum using assms epsilon_pos by (simp add: field_simps)
    then show ?thesis using nz by (simp add: vapor_pressure_def py_div_def)
  qed
  with r show ?thesis by blast
qed

theorem vapor_pressure_mixing_ratio_witness:
  "(1000::real) \<noteq> 10 \<and> mixing_ratio 10 1000 = Inr (epsilon * 10 / 990) \<and>
   epsilon + epsilon * 10 / 990 \<noteq> 0 \<and>
   vapor_pressure 1000 (epsilon * 10 / 990) = Inr 10"
proof -
  have ne: "(1000::real) \<noteq> 10" by simp
  have r: "mixing_ratio 10 1000 = Inr (epsilon * 10 / 990)"
    by (simp add: mixing_ratio_def py_div_def)
  have nz: "epsilon + epsilon * 10 / 990 \<noteq> 0"
    using epsilon_pos by (simp add: add_pos_pos)
  from vapor_pressure_mixing_ratio [OF ne] obtain r' where
    r': "mixing_ratio 10 1000 = Inr r'"
    and v: "epsilon + r' \<noteq> 0 \<longrightarrow> vapor_pressure 1000 r' = Inr 10"
    by blast
  from r r' have "r' = epsilon * 10 / 990" by simp
  with v nz have "vapor_pressure 1000 (epsilon * 10 / 990) = Inr 10" by blast
  with ne r nz show ?thesis by blast
qed

lemma std_exponent_pos: "0 < Rd * 6.5 / g"
  using Rd_pos by (simp add: g_def)

lemma pressure_to_height_std_value:
  assumes "0 < p"
  shows "pressure_to_height_std p =
           Inr ((288 / 6.5) * (1 - (p / 1013.25) powr (Rd * 6.5 / g)) * 1000)"
  using assms by (simp add: pressure_to_height_std_def py_pow_def Let_def)

lemma height_to_pressure_std_value:
  assumes "0 < w"
  shows "height_to_pressure_std ((288 / 6.5) * (1 - w) * 1000) =
           Inr (1013.25 * w powr (g / (Rd * 6.5)))"
proof -
  have "1 - (6.5 / 288) * ((288 / 6.5) * (1 - w) * 1000 * 0.001) = w"
    by (simp add: field_simps)
  then show ?thesis
    using assms by (simp add: height_to_pressure_std_def py_pow_def Let_def)
qed

lemma std_round_trip_exact:
  assumes "0 < p"
  shows "and_then (pressure_to_height_std p) height_to_pressure_std = Inr p"
proof -
  let ?k = "Rd * 6.5 / g"
  let ?w = "(p / 1013.25) powr ?k"
  have w: "0 < ?w" using assms by simp
  have k: "?k * (g / (Rd * 6.5)) = 1"
    using Rd_pos by (simp add: g_def)
  have "?w powr (g / (Rd * 6.5)) = (p / 1013.25) powr 1"
    unfolding powr_powr k ..
  also have "\<dots> = p / 1013.25" using assms by simp
  finally have "1013.25 * ?w powr (g / (Rd * 6.5)) = p" by simp
  then show ?thesis
    using assms w
    by (simp only: pressure_to_height_std_value height_to_pressure_std_value and_then_Inr)
qed

text \<open>
  C5. For every pressure \<open>p\<close> from 100 to 1050 hPa, \<open>pressure_to_height_std\<close> returns
  a height \<open>h\<close>, \<open>height_to_pressure_std\<close> returns a pressure \<open>q\<close> for it, and \<open>q\<close> is
  \<open>p\<close> within a relative tolerance of one millionth. (Over the reals \<open>q\<close> is \<open>p\<close>, as
  \<open>std_round_trip_exact\<close> shows.)
\<close>

theorem std_round_trip:
  assumes "100 \<le> p" and "p \<le> 1050"
  shows "\<exists>h q. pressure_to_height_std p = Inr h \<and> height_to_pressure_std h = Inr q \<and>
               \<bar>q - p\<bar> \<le> p / 1000000"
proof -
  have pos: "0 < p" using assms by simp
  from pressure_to_height_std_value [OF pos] obtain h where
    h: "pressure_to_height_std p = Inr h" by blast
  with std_round_trip_exact [OF pos] have q: "height_to_pressure_std h = Inr p"
    by simp
  have "\<bar>p - p\<bar> \<le> p / 1000000" using pos by simp
  with h q show ?thesis by blast
qed

theorem std_round_trip_witness:
  "(100::real) \<le> 500 \<and> (500::real) \<le> 1050 \<and>
   (\<exists>h q. pressure_to_height_std 500 = Inr h \<and> height_to_pressure_std h = Inr q \<and>
          \<bar>q - 500\<bar> \<le> 500 / 1000000)"
  using std_round_trip [of 500] by simp







lemma powr_rational_power:
  fixes a :: real
  assumes "0 < a" and "0 < n"
  shows "(a powr (real m / real n)) ^ n = a ^ m"
proof -
  have "(a powr (real m / real n)) ^ n = (a powr (real m / real n)) powr (real n)"
    using assms(1) by (simp add: powr_realpow)
  also have "\<dots> = a powr (real m)"
    using assms(2) by (simp add: powr_powr)
  also have "\<dots> = a ^ m" using assms(1) by (simp add: powr_realpow)
  finally show ?thesis .
qed

lemma powr_rational_gt:
  fixes a q :: real
  assumes "0 < a" and "0 < n" and "q ^ n < a ^ m"
  shows "q < a powr (real m / real n)"
proof (rule ccontr)
  assume "\<not> q < a powr (real m / real n)"
  then have "a powr (real m / real n) \<le> q" by simp
  then have "(a powr (real m / real n)) ^ n \<le> q ^ n"
    by (intro power_mono) simp_all
  then show False
    using assms(3) by (simp add: powr_rational_power [OF assms(1,2)])
qed

lemma powr_rational_lt:
  fixes a q :: real
  assumes "0 < a" and "0 < n" and "0 \<le> q" and "a ^ m < q ^ n"
  shows "a powr (real m / real n) < q"
proof (rule ccontr)
  assume "\<not> a powr (real m / real n) < q"
  then have "q \<le> a powr (real m / real n)" by simp
  then have "q ^ n \<le> (a powr (real m / real n)) ^ n"
    using assms(3) by (intro power_mono) simp_all
  then show False
    using assms(4) by (simp add: powr_rational_power [OF assms(1,2)])
qed

lemma power_500_le:
  fixes q :: real
  assumes "0 \<le> q" and "q ^ 10 \<le> u1" and "u1 ^ 10 \<le> u2" and "u2 ^ 5 \<le> u3"
  shows "q ^ 500 \<le> u3"
proof -
  have "(q ^ 10) ^ 10 \<le> u1 ^ 10"
    using assms(1,2) by (intro power_mono) simp_all
  then have "(q ^ 10) ^ 10 \<le> u2" using assms(3) by simp
  then have "((q ^ 10) ^ 10) ^ 5 \<le> u2 ^ 5"
    using assms(1) by (intro power_mono) simp_all
  then have "((q ^ 10) ^ 10) ^ 5 \<le> u3" using assms(4) by simp
  moreover have "((q ^ 10) ^ 10) ^ 5 = q ^ 500"
    by (simp only: power_mult [symmetric]) simp
  ultimately show ?thesis by simp
qed

lemma power_500_ge:
  fixes q :: real
  assumes "0 \<le> l1" and "l1 \<le> q ^ 10" and "0 \<le> l2" and "l2 \<le> l1 ^ 10" and "l3 \<le> l2 ^ 5"
  shows "l3 \<le> q ^ 500"
proof -
  have "l1 ^ 10 \<le> (q ^ 10) ^ 10"
    using assms(1,2) by (intro power_mono) simp_all
  then have "l2 \<le> (q ^ 10) ^ 10" using assms(4) by simp
  then have "l2 ^ 5 \<le> ((q ^ 10) ^ 10) ^ 5"
    using assms(3) by (intro power_mono) simp_all
  then have "l3 \<le> ((q ^ 10) ^ 10) ^ 5" using assms(5) by simp
  moreover have "((q ^ 10) ^ 10) ^ 5 = q ^ 500"
    by (simp only: power_mult [symmetric]) simp
  ultimately show ?thesis by simp
qed

lemma kappa_power_lower: "(290990 / 273000 :: real) ^ 500 < (5 / 4) ^ 143"
proof -
  have "(290990 / 273000 :: real) ^ 500 \<le> 72062402968841.85"
  proof (rule power_500_le)
    show "(290990 / 273000 :: real) ^ 10 \<le> 1.893015521002"
      by (simp add: power_divide)
    show "(1.893015521002 :: real) ^ 10 \<le> 590.9377686647"
      by (simp add: power_divide)
    show "(590.9377686647 :: real) ^ 5 \<le> 72062402968841.85"
      by (simp add: power_divide)
  qed simp
  also have "\<dots> < (5 / 4) ^ 143"
    by (simp add: power_divide)
  finally show ?thesis .
qed

lemma kappa_power_upper: "(5 / 4 :: real) ^ 143 < (290991 / 273000) ^ 500"
proof -
  have "(5 / 4 :: real) ^ 143 < 72186332011616.54"
    by (simp add: power_divide)
  also have "\<dots> \<le> (290991 / 273000) ^ 500"
  proof (rule power_500_ge)
    show "(1.893080576322 :: real) \<le> (290991 / 273000) ^ 10"
      by (simp add: power_divide)
    show "(591.1408815866 :: real) \<le> 1.893080576322 ^ 10"
      by (simp add: power_divide)
    show "(72186332011616.54 :: real) \<le> 591.1408815866 ^ 5"
      by (simp add: power_divide)
  qed simp_all
  finally show ?thesis .
qed

lemma kappa_as_ratio: "kappa = real 143 / real 500"
  by (simp add: kappa_def)

lemma potential_temperature_example_value:
  "potential_temperature 800 273 = Inr (273 * (5 / 4) powr kappa)"
  by (simp add: potential_temperature_def py_div_def py_pow_def P0_def)

lemma potential_temperature_example_bounds:
  "290.990 < 273 * (5 / 4 :: real) powr kappa" "273 * (5 / 4 :: real) powr kappa < 290.991"
proof -
  have "290990 / 273000 < (5 / 4 :: real) powr (real 143 / real 500)"
  proof (rule powr_rational_gt)
    show "(290990 / 273000 :: real) ^ 500 < (5 / 4) ^ 143" by (rule kappa_power_lower)
  qed simp_all
  then show "290.990 < 273 * (5 / 4 :: real) powr kappa"
    unfolding kappa_as_ratio by (simp add: field_simps)
  have "(5 / 4 :: real) powr (real 143 / real 500) < 290991 / 273000"
  proof (rule powr_rational_lt)
    show "(5 / 4 :: real) ^ 143 < (290991 / 273000) ^ 500" by (rule kappa_power_upper)
  qed simp_all
  then show "273 * (5 / 4 :: real) powr kappa < 290.991"
    unfolding kappa_as_ratio by (simp add: field_simps)
qed

lemma saturation_vapor_pressure_at_0c:
  "saturation_vapor_pressure 273.15 = Inr 6.112"
  by (simp add: saturation_vapor_pressure_def py_div_def sat_pressure_0c_def)

text \<open>
  C8, as amended. \<open>potential_temperature 800 273\<close> returns a value between 290.990 and
  290.991 (it is 290.9906 to four decimals, with \<open>P0 = 1000\<close> and \<open>kappa = 0.286\<close>), and
  \<open>saturation_vapor_pressure 273.15\<close> returns 6.112.
\<close>

theorem potential_temperature_example:
  "(\<exists>v. potential_temperature 800 273 = Inr v \<and> 290.990 < v \<and> v < 290.991) \<and>
   saturation_vapor_pressure 273.15 = Inr 6.112"
  using potential_temperature_example_value potential_temperature_example_bounds
    saturation_vapor_pressure_at_0c by blast

text \<open>
  C8 as stated gives 290.966 for the first value. A value quoted to three decimals is
  read as right to about a unit of the last one; the value returned is more than 0.02
  away from it.
\<close>

theorem potential_temperature_not_290_966:
  "potential_temperature 800 273 = Inr (273 * (5 / 4) powr kappa) \<and>
   \<not> \<bar>273 * (5 / 4) powr kappa - 290.966\<bar> \<le> (0.02 :: real)"
  using potential_temperature_example_value potential_temperature_example_bounds(1)
  by simp

section \<open>Properties of arrays\<close>






















section \<open>Properties of varimax\<close>









text \<open>
  C6. For every collaborator, input array, tolerance and iteration bound, \<open>varimax\<close>
  gives the same result, or raises the same error, with \<open>normalize\<close> true and false: the
  flag is never read.
\<close>

theorem varimax_normalize_ignored:
  "varimax linalg_svd x True tol it_max = varimax linalg_svd x False tol it_max"
  by (simp add: varimax_def)





section \<open>Properties of eof\<close>

lemma scatter_rows:
  assumes "distinct idx" and "list_all (\<lambda>i. i < length rs) idx"
  shows "length (fold (\<lambda>(k, i) rs. rs[i := f k]) (zip [0..<length idx] idx) rs) = length rs"
    and "\<And>k. k < length idx \<Longrightarrow>
           fold (\<lambda>(k, i) rs. rs[i := f k]) (zip [0..<length idx] idx) rs ! (idx ! k) = f k"
    and "\<And>i. i \<notin> set idx \<Longrightarrow>
           fold (\<lambda>(k, i) rs. rs[i := f k]) (zip [0..<length idx] idx) rs ! i = rs ! i"
  using assms
proof (induction idx rule: rev_induct)
  case Nil
  {
    case 1 show ?case by simp
  next
    case 2 then show ?case by simp
  next
    case 3 show ?case by simp
  }
next
  case (snoc j idx)
  let ?F = "\<lambda>ix. fold (\<lambda>(k, i) rs. rs[i := f k]) (zip [0..<length ix] ix) rs"
  have unfold: "?F (idx @ [j]) = (?F idx)[j := f (length idx)]"
    by simp
  {
    case 1
    then have "distinct idx" "list_all (\<lambda>i. i < length rs) idx" by simp_all
    from snoc.IH(1) [OF this] show ?case unfolding unfold by simp
  next
    case (2 k)
    then have d: "distinct idx" "list_all (\<lambda>i. i < length rs) idx"
      and j: "j \<notin> set idx" "j < length rs" by simp_all
    have len: "length (?F idx) = length rs" using snoc.IH(1) [OF d] .
    show ?case
    proof (cases "k < length idx")
      case True
      then have "(idx @ [j]) ! k = idx ! k" by (simp add: nth_append)
      moreover have "idx ! k \<noteq> j" using True j(1) by (metis nth_mem)
      ultimately show ?thesis
        unfolding unfold using snoc.IH(2) [OF True d] by simp
    next
      case False
      with 2(1) have "k = length idx" by simp
      then show ?thesis unfolding unfold using len j(2) by simp
    qed
  next
    case (3 i)
    then have d: "distinct idx" "list_all (\<lambda>i. i < length rs) idx"
      and i: "i \<notin> set idx" "i \<noteq> j" by simp_all
    show ?case unfolding unfold using snoc.IH(3) [OF i(1) d] i(2) by simp
  }
qed

lemma set_rows_value:
  assumes "distinct idx" and "list_all (\<lambda>i. i < nrows a) idx"
    and "length (rows a) = nrows a" and "nrows v = length idx" and "ncols v = ncols a"
  obtains b where "set_rows a idx v = Inr b"
    and "\<And>k. k < length idx \<Longrightarrow> rows b ! (idx ! k) = rows v ! k"
    and "\<And>i. i \<notin> set idx \<Longrightarrow> rows b ! i = rows a ! i"
proof -
  let ?rs = "fold (\<lambda>(k, i) rs. rs[i := rows v ! k]) (zip [0..<length idx] idx) (rows a)"
  have in_range: "list_all (\<lambda>i. i < length (rows a)) idx"
    using assms(2,3) by simp
  have "set_rows a idx v = Inr (a\<lparr>rows := ?rs\<rparr>)"
    using assms(2,4,5) by (simp add: set_rows_def)
  moreover have "rows (a\<lparr>rows := ?rs\<rparr>) ! (idx ! k) = rows v ! k" if "k < length idx" for k
    using scatter_rows(2) [OF assms(1) in_range that, of "\<lambda>k. rows v ! k"] by simp
  moreover have "rows (a\<lparr>rows := ?rs\<rparr>) ! i = rows a ! i" if "i \<notin> set idx" for i
    using scatter_rows(3) [OF assms(1) in_range that, of "\<lambda>k. rows v ! k"] by simp
  ultimately show ?thesis using that by blast
qed

lemma rows_of_marker:
  "i < m \<Longrightarrow> rows (elementwise (\<lambda>v. v * NaN) (ones m n)) ! i = replicate n NaN"
  by (simp add: elementwise_def ones_def full_def times_val_def one_val_def)

lemma rows_of_negated:
  "k < length (rows a) \<Longrightarrow> rows (elementwise uminus a) ! k = map uminus (rows a ! k)"
  by (simp add: elementwise_def)

text \<open>
  Where the shapes fit, the restoration does what the claim says, for any set of rows
  with the marker in column 0: when \<open>EOF\<close> and \<open>PC\<close> of the reduced array both have its
  shape, every valid row of the result is the negated row of \<open>EOF\<close> and \<open>PC\<close>, and every
  other row is filled with the marker. On the default pathway \<open>EOF\<close> is square, so this
  needs as many valid rows as columns.
\<close>

lemma eof_restores_rows:
  assumes nan: "contains_nan x" and cols: "0 < ncols x"
    and idx: "idx = filter (\<lambda>i. item x i 0 \<noteq> NaN) [0..<nrows x]"
    and xx: "xx = \<lparr>nrows = length idx, ncols = ncols x, rows = map (\<lambda>i. rows x ! i) idx\<rparr>"
    and dec: "eof_decompose linalg_svd linalg_eig xx svd transform = Inr (EOF, E, PC)"
    and EOF: "shaped (length idx) (ncols x) EOF" and PC: "shaped (length idx) (ncols x) PC"
  shows "\<exists>EOF' PC'.
           eof linalg_svd linalg_eig x svd transform = Inr (EOF', E, PC') \<and>
           (\<forall>k<length idx. rows EOF' ! (idx ! k) = map uminus (rows EOF ! k) \<and>
                            rows PC' ! (idx ! k) = map uminus (rows PC ! k)) \<and>
           (\<forall>i<nrows x. i \<notin> set idx \<longrightarrow> rows EOF' ! i = replicate (ncols x) NaN \<and>
                                          rows PC' ! i = replicate (ncols x) NaN)"
proof -
  let ?blank = "elementwise (\<lambda>v. v * NaN) (ones (nrows x) (ncols x)) :: val array2"
  have d: "distinct idx" unfolding idx by simp
  have r: "list_all (\<lambda>i. i < nrows x) idx" unfolding idx by (simp add: list_all_iff)
  have valid: "valid_rows x = Inr idx"
    using cols by (simp add: valid_rows_def idx)
  have take: "take_rows x idx = Inr xx"
    using r by (simp add: take_rows_def xx)
  have blank: "nrows ?blank = nrows x" "ncols ?blank = ncols x" "length (rows ?blank) = nrows ?blank"
    by (simp_all add: elementwise_def ones_def full_def)
  have r': "list_all (\<lambda>i. i < nrows ?blank) idx" using r by (simp add: blank(1))
  have nE: "nrows (elementwise uminus EOF) = length idx" "ncols (elementwise uminus EOF) = ncols ?blank"
    using EOF by (simp_all add: elementwise_def shaped_def ones_def full_def)
  have nP: "nrows (elementwise uminus PC) = length idx" "ncols (elementwise uminus PC) = ncols ?blank"
    using PC by (simp_all add: elementwise_def shaped_def ones_def full_def)
  obtain EOF' where E1: "set_rows ?blank idx (elementwise uminus EOF) = Inr EOF'"
    and E2: "\<And>k. k < length idx \<Longrightarrow> rows EOF' ! (idx ! k) = rows (elementwise uminus EOF) ! k"
    and E3: "\<And>i. i \<notin> set idx \<Longrightarrow> rows EOF' ! i = rows ?blank ! i"
    using set_rows_value [OF d r' blank(3) nE] by blast
  obtain PC' where P1: "set_rows ?blank idx (elementwise uminus PC) = Inr PC'"
    and P2: "\<And>k. k < length idx \<Longrightarrow> rows PC' ! (idx ! k) = rows (elementwise uminus PC) ! k"
    and P3: "\<And>i. i \<notin> set idx \<Longrightarrow> rows PC' ! i = rows ?blank ! i"
    using set_rows_value [OF d r' blank(3) nP] by blast
  have lE: "length (rows EOF) = length idx" and lP: "length (rows PC) = length idx"
    using EOF PC by (simp_all add: shaped_def well_shaped_def)
  have "eof linalg_svd linalg_eig x svd transform = Inr (EOF', E, PC')"
    unfolding eof_def using nan by (simp add: valid take dec E1 P1)
  moreover have "rows EOF' ! (idx ! k) = map uminus (rows EOF ! k) \<and>
                 rows PC' ! (idx ! k) = map uminus (rows PC ! k)" if "k < length idx" for k
    using that E2 P2 lE lP by (simp add: rows_of_negated)
  moreover have "rows EOF' ! i = replicate (ncols x) NaN \<and> rows PC' ! i = replicate (ncols x) NaN"
    if "i < nrows x" "i \<notin> set idx" for i
    using that E3 P3 by (simp add: rows_of_marker)
  ultimately show ?thesis by blast
qed

text \<open>
  Where \<open>EOF\<close> of the reduced array has another number of columns than \<open>x\<close> (and more
  than one, so that no stretching would apply), the restoration raises.
\<close>

lemma eof_restore_mismatch:
  assumes nan: "contains_nan x" and cols: "0 < ncols x"
    and idx: "idx = filter (\<lambda>i. item x i 0 \<noteq> NaN) [0..<nrows x]"
    and xx: "xx = \<lparr>nrows = length idx, ncols = ncols x, rows = map (\<lambda>i. rows x ! i) idx\<rparr>"
    and dec: "eof_decompose linalg_svd linalg_eig xx svd transform = Inr (EOF, E, PC)"
    and EOF: "ncols EOF \<noteq> ncols x" "1 < ncols EOF"
  shows "eof linalg_svd linalg_eig x svd transform = Inl ShapeError"
proof -
  have r: "list_all (\<lambda>i. i < nrows x) idx" unfolding idx by (simp add: list_all_iff)
  have valid: "valid_rows x = Inr idx"
    using cols by (simp add: valid_rows_def idx)
  have take: "take_rows x idx = Inr xx"
    using r by (simp add: take_rows_def xx)
  have "set_rows (elementwise (\<lambda>v. v * NaN) (ones (nrows x) (ncols x))) idx
          (elementwise uminus EOF) = Inl ShapeError"
    using r EOF(1) by (simp add: set_rows_def elementwise_def ones_def full_def)
  then show ?thesis
    unfolding eof_def using nan by (simp add: valid take dec)
qed

lemma eof_without_marker:
  "\<not> contains_nan x \<Longrightarrow>
     eof linalg_svd linalg_eig x svd transform = eof_decompose linalg_svd linalg_eig x svd transform"
  by (simp add: eof_def)

lemmas val_arith =
  zero_val_def one_val_def plus_val_def uminus_val_def times_val_def divide_val_def

lemmas array_defs =
  dot_def transpose2_def column_def inner_def elementwise_def ones_def zeros_def full_def
  eye_def item_def take_rows_def set_rows_def reverse_columns_def reverse_rows_def

lemma upt_3: "[0..<3] = [0, 1, 2]" and upt_2: "[0..<2] = [0, 1]"
  by (simp_all add: upt_conv_Cons)

text \<open>
  C1. The claim: with the missing marker in column 0 of row 2 only, \<open>eof x\<close> returns
  \<open>EOF\<close> and \<open>PC\<close> whose row 2 is the marker and whose other rows are \<open>-1\<close> times the
  rows of \<open>eof\<close> of the array without row 2. On the 3 by 3 array below the reduced
  array is 2 by 3, its \<open>EOF\<close> is 2 by 2 (eigenvectors of \<open>xx \<cdot> xx\<^sup>T / n\<close>), and the call
  on the full array raises: \<^verbatim>\<open>_EOF\<close> is allocated with the shape of \<open>x\<close>, and the
  2 by 2 array \<open>-EOF\<close> does not fit its two rows of three columns.
\<close>

theorem eof_missing_row_raises:
  "eof svd_of_diagonal eig_of_diagonal
     \<lparr>nrows = 3, ncols = 3,
      rows = [[Num 1, Num 0, Num 0], [Num 0, Num 2, Num 0], [NaN, Num 5, Num 7]]\<rparr>
     False False = Inl ShapeError \<and>
   eof svd_of_diagonal eig_of_diagonal
     \<lparr>nrows = 2, ncols = 3, rows = [[Num 1, Num 0, Num 0], [Num 0, Num 2, Num 0]]\<rparr>
     False False =
   Inr (\<lparr>nrows = 2, ncols = 2, rows = [[Num 0, Num 1], [Num 1, Num 0]]\<rparr>,
        [Num (4 / 3), Num (1 / 3)],
        \<lparr>nrows = 2, ncols = 3, rows = [[Num 0, Num 2, Num 0], [Num 1, Num 0, Num 0]]\<rparr>)"
  by (simp add: eof_def contains_nan_def valid_rows_def eof_decompose_def eig_of_diagonal_def
      array_defs val_arith upt_3 upt_2 Let_def)

end
